theory Spec2Isabelle
  imports Main "HOL-Library.AList" "HOL-Library.List_Lexorder" "HOL-Library.Char_ord"
begin

section \<open>Model lifecycle manager: shared vocabulary\<close>

text \<open>
  The Python sources are \<^verbatim>\<open>model_manager/registry.py\<close>, \<^verbatim>\<open>downloader.py\<close>,
  \<^verbatim>\<open>loader.py\<close> and \<^verbatim>\<open>manager.py\<close>. Every coroutine is modelled as a function
  from the component's state to an outcome and the new state.

  A Python \<^verbatim>\<open>dict\<close> is an association list in insertion order:
  \<^verbatim>\<open>d[k] = v\<close> is \<^const>\<open>AList.update\<close> (an existing key keeps its place, a new
  key goes to the end), \<^verbatim>\<open>d.pop(k)\<close> and \<^verbatim>\<open>del d[k]\<close> are
  \<^const>\<open>AList.delete\<close>, \<^verbatim>\<open>d.get(k)\<close> is \<^const>\<open>map_of\<close>.

  Time stamps are the strings of \<^verbatim>\<open>datetime.utcnow().isoformat()\<close>, compared as
  Python compares strings (lexicographically); the clock reading is an argument.
\<close>

datatype error =
  ValueError string
  | TypeError string
  | OSError string
  | Exn string

fun str_of :: "error \<Rightarrow> string" where
  "str_of (ValueError m) = m"
| "str_of (TypeError m) = m"
| "str_of (OSError m) = m"
| "str_of (Exn m) = m"

text \<open>
  What a call does: it returns a value, it raises, or it never returns
  (\<open>Hangs\<close>: the coroutine waits for an \<^verbatim>\<open>asyncio.Lock\<close> or semaphore that
  nothing will release, or repeats a loop on an unchanged state).
\<close>

datatype 'a outcome = Returns 'a | Raises error | Hangs

section \<open>Loader (loader.py)\<close>

text \<open>
  \<^verbatim>\<open>LoadedModel\<close>: the opaque \<^verbatim>\<open>model\<close>, \<^verbatim>\<open>tokenizer\<close> and \<^verbatim>\<open>config\<close>
  handles are left out, nothing in the coordination code inspects them.
\<close>

record LoadedModel =
  lm_model_id :: string
  lm_device :: string
  lm_dtype :: string
  loaded_at :: string
  lm_last_used :: string
  inference_count :: int

text \<open>
  \<^verbatim>\<open>ModelLoader\<close>: \<open>lock_held\<close> is \<^verbatim>\<open>self._lock.locked()\<close>. An
  \<^verbatim>\<open>asyncio.Lock\<close> is not re-entrant: \<^verbatim>\<open>async with self._lock\<close> waits until the
  lock is free, also when the waiting task is the holder.
\<close>

record ModelLoader =
  max_loaded_models :: int
  loaded_models :: "(string \<times> LoadedModel) list"
  lock_held :: bool
  available_device :: string
  torch_available :: bool

definition ModelLoader_init :: "int \<Rightarrow> string \<Rightarrow> bool \<Rightarrow> ModelLoader" where
  "ModelLoader_init max_loaded dev torch =
     \<lparr>max_loaded_models = max_loaded, loaded_models = [], lock_held = False,
      available_device = dev, torch_available = torch\<rparr>"

definition get_device :: "ModelLoader \<Rightarrow> string \<Rightarrow> string" where
  "get_device s requested_device =
     (if requested_device = ''auto'' then available_device s else requested_device)"

text \<open>\<^verbatim>\<open>_get_dtype\<close>, with the torch dtype written as its \<^verbatim>\<open>str()\<close>.\<close>

definition get_dtype :: "ModelLoader \<Rightarrow> string \<Rightarrow> string \<Rightarrow> string option" where
  "get_dtype s requested_dtype device =
     (if \<not> torch_available s then None
      else if requested_dtype = ''auto'' then
        (if device = ''cuda'' then Some ''torch.float16'' else Some ''torch.float32'')
      else if requested_dtype = ''float32'' then Some ''torch.float32''
      else if requested_dtype = ''float16'' then Some ''torch.float16''
      else if requested_dtype = ''bfloat16'' then Some ''torch.bfloat16''
      else Some ''torch.float32'')"

definition is_loaded :: "ModelLoader \<Rightarrow> string \<Rightarrow> bool" where
  "is_loaded s model_id = (map_of (loaded_models s) model_id \<noteq> None)"

text \<open>
  \<^verbatim>\<open>unload\<close>: takes the lock, so it never returns when the lock is held; otherwise
  pops the entry.
\<close>

definition unload :: "string \<Rightarrow> ModelLoader \<Rightarrow> bool outcome \<times> ModelLoader" where
  "unload model_id s =
     (if lock_held s then (Hangs, s)
      else if map_of (loaded_models s) model_id = None then (Returns False, s)
      else (Returns True, s\<lparr>loaded_models := AList.delete model_id (loaded_models s)\<rparr>))"

text \<open>
  \<^verbatim>\<open>min(values, key=lambda m: m.last_used)\<close>: Python keeps the current minimum
  unless a later item's key is strictly smaller, so the first of several oldest
  entries wins.
\<close>

fun min_by_last_used :: "LoadedModel \<Rightarrow> LoadedModel list \<Rightarrow> LoadedModel" where
  "min_by_last_used m [] = m"
| "min_by_last_used m (x # xs) =
     min_by_last_used (if lm_last_used x < lm_last_used m then x else m) xs"

definition lru_model :: "(string \<times> LoadedModel) list \<Rightarrow> error + LoadedModel" where
  "lru_model d =
     (case map snd d of
        [] \<Rightarrow> Inl (ValueError ''min() arg is an empty sequence'')
      | v # vs \<Rightarrow> Inr (min_by_last_used v vs))"

text \<open>
  \<^verbatim>\<open>_evict_if_needed\<close>: the \<^verbatim>\<open>while\<close> loop. When \<^verbatim>\<open>unload\<close> returns
  \<^verbatim>\<open>False\<close> the dictionary is unchanged and the loop repeats the same iteration
  for ever.
\<close>

function evict_if_needed :: "ModelLoader \<Rightarrow> unit outcome \<times> ModelLoader" where
  "evict_if_needed s =
     (if int (length (loaded_models s)) \<ge> max_loaded_models s then
        (case lru_model (loaded_models s) of
           Inl e \<Rightarrow> (Raises e, s)
         | Inr lru \<Rightarrow>
             (case unload (lm_model_id lru) s of
                (Returns True, s') \<Rightarrow> evict_if_needed s'
              | (Returns False, s') \<Rightarrow> (Hangs, s')
              | (Raises e, s') \<Rightarrow> (Raises e, s')
              | (Hangs, s') \<Rightarrow> (Hangs, s')))
      else (Returns (), s))"
  by pat_completeness auto
termination
  apply (relation "measure (\<lambda>s. length (loaded_models s))")
   apply simp
  apply (auto simp: unload_def AList.delete_eq split: if_splits dest!: map_of_SomeD)
  apply (rule length_filter_less)
   apply assumption
  apply simp
  done

declare evict_if_needed.simps [simp del]

text \<open>
  \<^verbatim>\<open>load\<close> has two critical sections with the weight loading between them.
  \<open>load_begin\<close> is the first: it takes the lock, returns the resident entry if
  there is one, and otherwise awaits \<^verbatim>\<open>_evict_if_needed\<close> while still holding
  the lock. An exception leaves the \<^verbatim>\<open>async with\<close> block and frees the lock; a
  call that hangs inside keeps it.
\<close>

datatype load_gate = AlreadyLoaded LoadedModel | Proceed

definition load_begin :: "string \<Rightarrow> ModelLoader \<Rightarrow> load_gate outcome \<times> ModelLoader" where
  "load_begin model_id s =
     (if lock_held s then (Hangs, s)
      else case map_of (loaded_models s) model_id of
        Some m \<Rightarrow> (Returns (AlreadyLoaded m), s)
      | None \<Rightarrow>
          (case evict_if_needed (s\<lparr>lock_held := True\<rparr>) of
             (Returns u, s') \<Rightarrow> (Returns Proceed, s'\<lparr>lock_held := False\<rparr>)
           | (Raises e, s') \<Rightarrow> (Raises e, s'\<lparr>lock_held := False\<rparr>)
           | (Hangs, s') \<Rightarrow> (Hangs, s')))"

definition new_loaded :: "string \<Rightarrow> string \<Rightarrow> string \<Rightarrow> string \<Rightarrow> ModelLoader \<Rightarrow> LoadedModel" where
  "new_loaded model_id device dtype now s =
     (let target_device = get_device s device;
          target_dtype = get_dtype s dtype target_device
      in \<lparr>lm_model_id = model_id, lm_device = target_device,
          lm_dtype = (case target_dtype of Some d \<Rightarrow> d | None \<Rightarrow> ''default''),
          loaded_at = now, lm_last_used = now, inference_count = 0\<rparr>)"

text \<open>The second critical section: \<^verbatim>\<open>self._loaded_models[model_id] = loaded\<close>.\<close>

definition load_finish :: "string \<Rightarrow> LoadedModel \<Rightarrow> ModelLoader \<Rightarrow> LoadedModel outcome \<times> ModelLoader" where
  "load_finish model_id loaded s =
     (if lock_held s then (Hangs, s)
      else (Returns loaded, s\<lparr>loaded_models := AList.update model_id loaded (loaded_models s)\<rparr>))"

text \<open>
  \<^verbatim>\<open>load\<close>, run without another task in between. \<open>weights\<close> is what the
  inference library does with the files (\<open>None\<close>: loaded; \<open>Some e\<close>: it raised
  \<open>e\<close>, which \<^verbatim>\<open>load\<close> logs and re-raises); the path, quantization and
  \<^verbatim>\<open>trust_remote_code\<close> arguments only reach that library.
\<close>

definition load ::
  "string \<Rightarrow> string \<Rightarrow> string \<Rightarrow> error option \<Rightarrow> string \<Rightarrow> ModelLoader
     \<Rightarrow> LoadedModel outcome \<times> ModelLoader" where
  "load model_id device dtype weights now s =
     (case load_begin model_id s of
        (Hangs, s1) \<Rightarrow> (Hangs, s1)
      | (Raises e, s1) \<Rightarrow> (Raises e, s1)
      | (Returns (AlreadyLoaded m), s1) \<Rightarrow> (Returns m, s1)
      | (Returns Proceed, s1) \<Rightarrow>
          (case weights of
             Some e \<Rightarrow> (Raises e, s1)
           | None \<Rightarrow> load_finish model_id (new_loaded model_id device dtype now s1) s1))"

definition update_usage :: "string \<Rightarrow> LoadedModel \<Rightarrow> LoadedModel" where
  "update_usage now m = m\<lparr>lm_last_used := now, inference_count := inference_count m + 1\<rparr>"

text \<open>
  \<^verbatim>\<open>generate\<close>: \<open>infer\<close> is the result of tokenizing, generating and decoding,
  all done by the inference library.
\<close>

definition generate ::
  "string \<Rightarrow> error + string \<Rightarrow> string \<Rightarrow> ModelLoader \<Rightarrow> string outcome \<times> ModelLoader" where
  "generate model_id infer now s =
     (case map_of (loaded_models s) model_id of
        None \<Rightarrow> (Raises (ValueError (''Model not loaded: '' @ model_id)), s)
      | Some m \<Rightarrow>
          (let s' = s\<lparr>loaded_models := AList.update model_id (update_usage now m) (loaded_models s)\<rparr>
           in case infer of Inl e \<Rightarrow> (Raises e, s') | Inr text \<Rightarrow> (Returns text, s')))"

text \<open>Sequences of calls on one loader, each awaited before the next is made.\<close>

datatype loader_call =
  Load string string string "error option" string
  | Unload string
  | Generate string "error + string" string

fun exec_call :: "loader_call \<Rightarrow> ModelLoader \<Rightarrow> ModelLoader" where
  "exec_call (Load model_id device dtype weights now) s = snd (load model_id device dtype weights now s)"
| "exec_call (Unload model_id) s = snd (unload model_id s)"
| "exec_call (Generate model_id infer now) s = snd (generate model_id infer now s)"

text \<open>The states after the first, second, ... call of the sequence.\<close>

fun run_calls :: "loader_call list \<Rightarrow> ModelLoader \<Rightarrow> ModelLoader list" where
  "run_calls [] s = []"
| "run_calls (c # cs) s = exec_call c s # run_calls cs (exec_call c s)"

section \<open>Registry (registry.py)\<close>

datatype ModelStatus = DOWNLOADING | READY | LOADING | LOADED | ERROR | DELETED

fun status_value :: "ModelStatus \<Rightarrow> string" where
  "status_value DOWNLOADING = ''downloading''"
| "status_value READY = ''ready''"
| "status_value LOADING = ''loading''"
| "status_value LOADED = ''loaded''"
| "status_value ERROR = ''error''"
| "status_value DELETED = ''deleted''"

text \<open>\<^verbatim>\<open>ModelStatus(value)\<close>: the member with that value, \<open>None\<close> where Python raises \<^verbatim>\<open>ValueError\<close>.\<close>

definition ModelStatus_of :: "string \<Rightarrow> ModelStatus option" where
  "ModelStatus_of v =
     (if v = ''downloading'' then Some DOWNLOADING
      else if v = ''ready'' then Some READY
      else if v = ''loading'' then Some LOADING
      else if v = ''loaded'' then Some LOADED
      else if v = ''error'' then Some ERROR
      else if v = ''deleted'' then Some DELETED
      else None)"

text \<open>
  The values \<^verbatim>\<open>json.dump\<close> writes and \<^verbatim>\<open>json.load\<close> reads back (the snapshot
  holds no floats). The \<^verbatim>\<open>json\<close> module is outside the repository: what it writes
  for such a value is taken to parse back to the same value, so a file's content is the
  value itself.
\<close>

datatype json =
  JNull
  | JBool bool
  | JInt int
  | JStr string
  | JArr "json list"
  | JObj "(string \<times> json) list"

text \<open>
  \<^verbatim>\<open>LocalModelInfo\<close>. \<open>model_type\<close> is annotated \<^verbatim>\<open>str\<close>, but
  \<^verbatim>\<open>download_model\<close> stores the remote \<^verbatim>\<open>pipeline_tag\<close> there, which can be
  \<^verbatim>\<open>None\<close>.
\<close>

record LocalModelInfo =
  model_id :: string
  local_path :: string
  status :: ModelStatus
  size_bytes :: int
  downloaded_at :: "string option"
  last_used :: "string option"
  revision :: string
  model_type :: "string option"
  quantization :: "string option"
  config :: "(string \<times> json) list"
  metadata :: "(string \<times> json) list"
  error_message :: "string option"

text \<open>The dataclass constructor with its defaults.\<close>

definition LocalModelInfo_new :: "string \<Rightarrow> string \<Rightarrow> LocalModelInfo" where
  "LocalModelInfo_new mid path =
     \<lparr>model_id = mid, local_path = path, status = READY, size_bytes = 0,
      downloaded_at = None, last_used = None, revision = ''main'',
      model_type = Some ''unknown'', quantization = None, config = [], metadata = [],
      error_message = None\<rparr>"

definition json_opt :: "string option \<Rightarrow> json" where
  "json_opt x = (case x of None \<Rightarrow> JNull | Some v \<Rightarrow> JStr v)"

definition to_dict :: "LocalModelInfo \<Rightarrow> (string \<times> json) list" where
  "to_dict m =
     [(''model_id'', JStr (model_id m)),
      (''local_path'', JStr (local_path m)),
      (''status'', JStr (status_value (status m))),
      (''size_bytes'', JInt (size_bytes m)),
      (''downloaded_at'', json_opt (downloaded_at m)),
      (''last_used'', json_opt (last_used m)),
      (''revision'', JStr (revision m)),
      (''model_type'', json_opt (model_type m)),
      (''quantization'', json_opt (quantization m)),
      (''config'', JObj (config m)),
      (''metadata'', JObj (metadata m)),
      (''error_message'', json_opt (error_message m))]"

definition field_names :: "string list" where
  "field_names =
     [''model_id'', ''local_path'', ''status'', ''size_bytes'', ''downloaded_at'',
      ''last_used'', ''revision'', ''model_type'', ''quantization'', ''config'',
      ''metadata'', ''error_message'']"

text \<open>
  Reading a field back into the typed record. Python stores whatever value the
  dictionary holds; the record has no place for a value of another type, and the
  decoders answer \<open>None\<close> there.
\<close>

fun dec_str :: "json \<Rightarrow> string option" where
  "dec_str (JStr v) = Some v"
| "dec_str _ = None"

fun dec_opt_str :: "json \<Rightarrow> string option option" where
  "dec_opt_str JNull = Some None"
| "dec_opt_str (JStr v) = Some (Some v)"
| "dec_opt_str _ = None"

fun dec_int :: "json \<Rightarrow> int option" where
  "dec_int (JInt n) = Some n"
| "dec_int _ = None"

fun dec_obj :: "json \<Rightarrow> (string \<times> json) list option" where
  "dec_obj (JObj d) = Some d"
| "dec_obj _ = None"

definition get_field ::
  "(json \<Rightarrow> 'a option) \<Rightarrow> 'a \<Rightarrow> (string \<times> json) list \<Rightarrow> string \<Rightarrow> 'a option" where
  "get_field dec dflt data k = (case map_of data k of None \<Rightarrow> Some dflt | Some j \<Rightarrow> dec j)"

text \<open>\<^verbatim>\<open>ModelStatus(data.get("status", "ready"))\<close>.\<close>

definition status_field :: "(string \<times> json) list \<Rightarrow> ModelStatus option" where
  "status_field data =
     (case map_of data ''status'' of
        None \<Rightarrow> ModelStatus_of ''ready''
      | Some (JStr v) \<Rightarrow> ModelStatus_of v
      | Some _ \<Rightarrow> None)"

definition build_info :: "ModelStatus \<Rightarrow> (string \<times> json) list \<Rightarrow> LocalModelInfo option" where
  "build_info st data =
     Option.bind (Option.bind (map_of data ''model_id'') dec_str) (\<lambda>a.
     Option.bind (Option.bind (map_of data ''local_path'') dec_str) (\<lambda>b.
     Option.bind (get_field dec_int 0 data ''size_bytes'') (\<lambda>c.
     Option.bind (get_field dec_opt_str None data ''downloaded_at'') (\<lambda>d.
     Option.bind (get_field dec_opt_str None data ''last_used'') (\<lambda>e.
     Option.bind (get_field dec_str ''main'' data ''revision'') (\<lambda>f.
     Option.bind (get_field dec_opt_str (Some ''unknown'') data ''model_type'') (\<lambda>g.
     Option.bind (get_field dec_opt_str None data ''quantization'') (\<lambda>h.
     Option.bind (get_field dec_obj [] data ''config'') (\<lambda>i.
     Option.bind (get_field dec_obj [] data ''metadata'') (\<lambda>j.
     Option.bind (get_field dec_opt_str None data ''error_message'') (\<lambda>k.
       Some \<lparr>model_id = a, local_path = b, status = st, size_bytes = c,
             downloaded_at = d, last_used = e, revision = f, model_type = g,
             quantization = h, config = i, metadata = j, error_message = k\<rparr>)))))))))))"

text \<open>
  \<^verbatim>\<open>from_dict\<close>: an invalid status raises \<^verbatim>\<open>ValueError\<close>; \<^verbatim>\<open>cls(**data)\<close>
  raises \<^verbatim>\<open>TypeError\<close> for a key that is no field and for a missing
  \<^verbatim>\<open>model_id\<close> or \<^verbatim>\<open>local_path\<close>. The last branch is the typed model's own:
  for a field value of another type than the dataclass annotates (a string for
  \<^verbatim>\<open>size_bytes\<close>, say) Python builds the object with that value and the record
  loads. \<^verbatim>\<open>to_dict\<close> never writes such a value.
\<close>

definition from_dict :: "(string \<times> json) list \<Rightarrow> error + LocalModelInfo" where
  "from_dict data =
     (case status_field data of
        None \<Rightarrow> Inl (ValueError ''not a valid ModelStatus'')
      | Some st \<Rightarrow>
          if filter (\<lambda>k. k \<notin> set field_names) (map fst data) \<noteq> [] then
            Inl (TypeError ''unexpected keyword argument'')
          else if map_of data ''model_id'' = None \<or> map_of data ''local_path'' = None then
            Inl (TypeError ''missing required positional argument'')
          else (case build_info st data of
                  None \<Rightarrow> Inl (TypeError ''field value of another type'')
                | Some m \<Rightarrow> Inr m))"

text \<open>
  The registry file: absent, holding a JSON value, or holding text that does not parse
  (what a write that failed half way leaves behind).
\<close>

datatype file_content = Parsed json | Unparseable

record ModelRegistry =
  models :: "(string \<times> LocalModelInfo) list"
  registry_file :: "file_content option"

text \<open>
  \<^verbatim>\<open>asyncio.Lock\<close> of the registry: no critical section of the registry awaits
  anything, so each runs to its end once entered and the lock is not modelled.
\<close>

fun load_items ::
  "(string \<times> json) list \<Rightarrow> (string \<times> LocalModelInfo) list
     \<Rightarrow> error + (string \<times> LocalModelInfo) list" where
  "load_items [] acc = Inr acc"
| "load_items ((k, JObj d) # rest) acc =
     (case from_dict d of
        Inl e \<Rightarrow> Inl e
      | Inr m \<Rightarrow> load_items rest (AList.update k m acc))"
| "load_items ((k, _) # rest) acc = Inl (Exn ''AttributeError'')"

text \<open>\<^verbatim>\<open>_load_registry\<close>: any exception leaves the registry empty.\<close>

definition load_registry :: "file_content option \<Rightarrow> (string \<times> LocalModelInfo) list" where
  "load_registry f =
     (case f of
        None \<Rightarrow> []
      | Some Unparseable \<Rightarrow> []
      | Some (Parsed (JObj root)) \<Rightarrow>
          (case map_of root ''models'' of
             None \<Rightarrow> []
           | Some (JObj items) \<Rightarrow>
               (case load_items items [] of Inl e \<Rightarrow> [] | Inr ms \<Rightarrow> ms)
           | Some _ \<Rightarrow> [])
      | Some (Parsed _) \<Rightarrow> [])"

definition ModelRegistry_init :: "file_content option \<Rightarrow> ModelRegistry" where
  "ModelRegistry_init f = \<lparr>models = load_registry f, registry_file = f\<rparr>"

definition snapshot :: "string \<Rightarrow> (string \<times> LocalModelInfo) list \<Rightarrow> json" where
  "snapshot now ms =
     JObj [(''version'', JStr ''1.0''),
           (''updated_at'', JStr now),
           (''models'', JObj (map (\<lambda>(k, info). (k, JObj (to_dict info))) ms))]"

text \<open>
  What the file system does to a write: nothing wrong, \<^verbatim>\<open>open(..., "w")\<close> raises
  (the file is untouched), or \<^verbatim>\<open>json.dump\<close> raises after the file was truncated.
\<close>

datatype write_fault = NoFault | OpenFails | DumpFails

text \<open>The body of the \<^verbatim>\<open>try\<close> in \<^verbatim>\<open>_save_registry\<close>.\<close>

definition write_snapshot :: "write_fault \<Rightarrow> string \<Rightarrow> ModelRegistry \<Rightarrow> unit outcome \<times> ModelRegistry" where
  "write_snapshot fault now r =
     (case fault of
        NoFault \<Rightarrow> (Returns (), r\<lparr>registry_file := Some (Parsed (snapshot now (models r)))\<rparr>)
      | OpenFails \<Rightarrow> (Raises (OSError ''cannot open registry file''), r)
      | DumpFails \<Rightarrow> (Raises (OSError ''cannot write registry file''), r\<lparr>registry_file := Some Unparseable\<rparr>))"

text \<open>\<^verbatim>\<open>_save_registry\<close>: \<^verbatim>\<open>except Exception\<close> logs the error and goes on.\<close>

definition save_registry :: "write_fault \<Rightarrow> string \<Rightarrow> ModelRegistry \<Rightarrow> unit outcome \<times> ModelRegistry" where
  "save_registry fault now r =
     (case write_snapshot fault now r of
        (Raises e, r') \<Rightarrow> (Returns (), r')
      | (x, r') \<Rightarrow> (x, r'))"

definition register :: "write_fault \<Rightarrow> string \<Rightarrow> LocalModelInfo \<Rightarrow> ModelRegistry \<Rightarrow> unit outcome \<times> ModelRegistry" where
  "register fault now model_info r =
     save_registry fault now (r\<lparr>models := AList.update (model_id model_info) model_info (models r)\<rparr>)"

definition update_status ::
  "write_fault \<Rightarrow> string \<Rightarrow> string \<Rightarrow> ModelStatus \<Rightarrow> string option \<Rightarrow> ModelRegistry
     \<Rightarrow> unit outcome \<times> ModelRegistry" where
  "update_status fault now mid st msg r =
     (case map_of (models r) mid of
        None \<Rightarrow> (Returns (), r)
      | Some m \<Rightarrow>
          (let m1 = m\<lparr>status := st, error_message := msg\<rparr>;
               m2 = (if st = LOADED then m1\<lparr>last_used := Some now\<rparr> else m1)
           in save_registry fault now (r\<lparr>models := AList.update mid m2 (models r)\<rparr>)))"

definition registry_get :: "ModelRegistry \<Rightarrow> string \<Rightarrow> LocalModelInfo option" where
  "registry_get r mid = map_of (models r) mid"

definition registry_exists :: "ModelRegistry \<Rightarrow> string \<Rightarrow> bool" where
  "registry_exists r mid = (map_of (models r) mid \<noteq> None)"


definition get_model_path :: "ModelRegistry \<Rightarrow> string \<Rightarrow> string option" where
  "get_model_path r mid =
     (case map_of (models r) mid of
        None \<Rightarrow> None
      | Some m \<Rightarrow> if status m = READY \<or> status m = LOADED then Some (local_path m) else None)"

section \<open>Downloader (downloader.py)\<close>

datatype DownloadStatus = PENDING | DS_DOWNLOADING | COMPLETED | FAILED | CANCELLED

record DownloadProgress =
  dp_model_id :: string
  dp_status :: DownloadStatus
  progress_percent :: int
  downloaded_bytes :: int
  total_bytes :: int
  dp_error :: "string option"
  started_at :: "string option"
  completed_at :: "string option"

record DownloadTask =
  task_model_id :: string
  task_revision :: string
  local_dir :: "string option"
  include_patterns :: "string list"
  exclude_patterns :: "string list"
  force_download :: bool
  task_status :: DownloadStatus
  progress :: DownloadProgress
  cancel_event :: bool

text \<open>The dataclass constructor as \<^verbatim>\<open>download_model\<close> calls it, with \<^verbatim>\<open>__post_init__\<close>.\<close>

definition DownloadTask_new :: "string \<Rightarrow> string \<Rightarrow> string list \<Rightarrow> string list \<Rightarrow> bool \<Rightarrow> DownloadTask" where
  "DownloadTask_new mid rv inc exc force =
     \<lparr>task_model_id = mid, task_revision = rv, local_dir = None,
      include_patterns = inc, exclude_patterns = exc, force_download = force,
      task_status = PENDING,
      progress = \<lparr>dp_model_id = mid, dp_status = PENDING, progress_percent = 0,
                  downloaded_bytes = 0, total_bytes = 0, dp_error = None,
                  started_at = None, completed_at = None\<rparr>,
      cancel_event = False\<rparr>"

text \<open>
  \<^verbatim>\<open>ModelDownloader\<close>. A task is a mutable object that \<^verbatim>\<open>_active_tasks\<close>, the
  running \<^verbatim>\<open>download\<close> and its caller all refer to, so the tasks live in a store
  \<open>tasks\<close> and are passed by reference (the position in the store). \<open>semaphore\<close> is the number of free
  download slots, \<open>dirs\<close> the directories that exist on disk (the cache root, which
  the constructor creates, among them), \<open>transfers\<close> the
  repositories \<^verbatim>\<open>snapshot_download\<close> has been called for, in order. The
  downloader's lock guards sections that await nothing and is not modelled.
\<close>

record ModelDownloader =
  dl_cache_dir :: string
  semaphore :: nat
  tasks :: "DownloadTask list"
  active_tasks :: "(string \<times> nat) list"
  dirs :: "string list"
  transfers :: "string list"

definition ModelDownloader_init :: "string \<Rightarrow> nat \<Rightarrow> string list \<Rightarrow> ModelDownloader" where
  "ModelDownloader_init cache_dir max_concurrent on_disk =
     \<lparr>dl_cache_dir = cache_dir, semaphore = max_concurrent, tasks = [],
      active_tasks = [], dirs = List.insert cache_dir on_disk, transfers = []\<rparr>"

definition alloc_task :: "DownloadTask \<Rightarrow> ModelDownloader \<Rightarrow> nat \<times> ModelDownloader" where
  "alloc_task t s = (length (tasks s), s\<lparr>tasks := tasks s @ [t]\<rparr>)"

definition task_at :: "ModelDownloader \<Rightarrow> nat \<Rightarrow> DownloadTask option" where
  "task_at s ref = (if ref < length (tasks s) then Some (tasks s ! ref) else None)"

definition update_task :: "nat \<Rightarrow> (DownloadTask \<Rightarrow> DownloadTask) \<Rightarrow> ModelDownloader \<Rightarrow> ModelDownloader" where
  "update_task ref f s =
     (if ref < length (tasks s) then s\<lparr>tasks := (tasks s)[ref := f (tasks s ! ref)]\<rparr> else s)"

text \<open>
  \<^verbatim>\<open>model_id.replace("/", "--")\<close>, and \<^verbatim>\<open>str(base / name)\<close> of \<^verbatim>\<open>pathlib\<close>
  for a base that is itself the \<^verbatim>\<open>str\<close> of a path and a name without a slash: the
  empty name and \<^verbatim>\<open>"."\<close> add nothing, so the directory of the model ids
  \<^verbatim>\<open>""\<close> and \<^verbatim>\<open>"."\<close> is the cache root itself.
\<close>

fun replace_slash :: "string \<Rightarrow> string" where
  "replace_slash [] = []"
| "replace_slash (c # cs) =
     (if c = CHR ''/'' then ''--'' @ replace_slash cs else c # replace_slash cs)"

definition path_join :: "string \<Rightarrow> string \<Rightarrow> string" where
  "path_join base name =
     (if name = [] \<or> name = ''.'' then base
      else if base = ''.'' then name
      else if base \<noteq> [] \<and> last base = CHR ''/'' then base @ name
      else base @ ''/'' @ name)"

definition model_dir :: "string \<Rightarrow> string \<Rightarrow> string" where
  "model_dir cache_dir mid = path_join cache_dir (replace_slash mid)"

text \<open>
  \<open>below p d\<close>: the path \<open>d\<close> is \<open>p\<close> or lies in the tree under \<open>p\<close>. Creating
  a directory creates the cache root with it when it lies below the root
  (\<^verbatim>\<open>makedirs\<close>); \<^verbatim>\<open>shutil.rmtree\<close> removes the whole tree.
\<close>

definition below :: "string \<Rightarrow> string \<Rightarrow> bool" where
  "below p d =
     (d = p \<or>
      (if p = ''.'' then d \<noteq> [] \<and> take 1 d \<noteq> ''/'' \<and> d \<noteq> ''..'' \<and> take 3 d \<noteq> ''../''
       else if p \<noteq> [] \<and> last p = CHR ''/'' then take (length p) d = p
       else take (Suc (length p)) d = p @ ''/''))"

definition make_dir :: "string \<Rightarrow> ModelDownloader \<Rightarrow> ModelDownloader" where
  "make_dir d s =
     s\<lparr>dirs := List.insert d
                (if below (dl_cache_dir s) d then List.insert (dl_cache_dir s) (dirs s)
                 else dirs s)\<rparr>"

definition remove_tree :: "string \<Rightarrow> ModelDownloader \<Rightarrow> ModelDownloader" where
  "remove_tree p s = s\<lparr>dirs := filter (\<lambda>d. \<not> below p d) (dirs s)\<rparr>"

text \<open>
  What \<^verbatim>\<open>snapshot_download\<close> does: it fetches the files (whose sizes add up to the
  given number), or it raises, having created the directory already or not.
\<close>

datatype transfer_result = TransferOk int | TransferFailed error bool

text \<open>
  \<^verbatim>\<open>download\<close> up to the point where it awaits the transfer: a slot is taken
  (the call waits while none is free), the task is entered in \<^verbatim>\<open>_active_tasks\<close>
  and marked, the transfer is started. A reference that was never allocated has no
  counterpart in Python.
\<close>

definition download_begin :: "nat \<Rightarrow> string \<Rightarrow> ModelDownloader \<Rightarrow> unit outcome \<times> ModelDownloader" where
  "download_begin ref now s =
     (case task_at s ref of
        None \<Rightarrow> (Raises (Exn ''no such task''), s)
      | Some t \<Rightarrow>
          if semaphore s = 0 then (Hangs, s)
          else (Returns (),
                update_task ref
                  (\<lambda>t. t\<lparr>task_status := DS_DOWNLOADING,
                         progress := (progress t)\<lparr>dp_status := DS_DOWNLOADING,
                                                   started_at := Some now\<rparr>\<rparr>)
                  (s\<lparr>semaphore := semaphore s - 1,
                     active_tasks := AList.update (task_model_id t) ref (active_tasks s),
                     transfers := transfers s @ [task_model_id t]\<rparr>)))"

text \<open>The \<^verbatim>\<open>finally\<close> block and the release of the slot.\<close>

definition release_slot :: "string \<Rightarrow> ModelDownloader \<Rightarrow> ModelDownloader" where
  "release_slot mid s =
     s\<lparr>active_tasks := AList.delete mid (active_tasks s), semaphore := semaphore s + 1\<rparr>"

text \<open>\<^verbatim>\<open>download\<close> from the end of the transfer on.\<close>

definition download_finish ::
  "nat \<Rightarrow> transfer_result \<Rightarrow> string \<Rightarrow> ModelDownloader \<Rightarrow> string outcome \<times> ModelDownloader" where
  "download_finish ref result now s =
     (case task_at s ref of
        None \<Rightarrow> (Raises (Exn ''no such task''), s)
      | Some t \<Rightarrow>
          (let dir = (case local_dir t of
                        None \<Rightarrow> model_dir (dl_cache_dir s) (task_model_id t)
                      | Some d \<Rightarrow> if d = [] then model_dir (dl_cache_dir s) (task_model_id t) else d)
           in case result of
                TransferOk sz \<Rightarrow>
                  (Returns dir,
                   release_slot (task_model_id t)
                     (update_task ref
                        (\<lambda>t. t\<lparr>task_status := COMPLETED,
                               progress := (progress t)\<lparr>dp_status := COMPLETED,
                                                         progress_percent := 100,
                                                         downloaded_bytes := sz,
                                                         total_bytes := sz,
                                                         completed_at := Some now\<rparr>\<rparr>)
                        (make_dir dir s)))
              | TransferFailed e created \<Rightarrow>
                  (Raises e,
                   release_slot (task_model_id t)
                     (update_task ref
                        (\<lambda>t. t\<lparr>task_status := FAILED,
                               progress := (progress t)\<lparr>dp_status := FAILED,
                                                         dp_error := Some (str_of e)\<rparr>\<rparr>)
                        (if created then make_dir dir s else s)))))"

text \<open>\<^verbatim>\<open>download\<close> with no other task running in between.\<close>

definition download ::
  "nat \<Rightarrow> transfer_result \<Rightarrow> string \<Rightarrow> ModelDownloader \<Rightarrow> string outcome \<times> ModelDownloader" where
  "download ref result now s =
     (case download_begin ref now s of
        (Returns u, s1) \<Rightarrow> download_finish ref result now s1
      | (Raises e, s1) \<Rightarrow> (Raises e, s1)
      | (Hangs, s1) \<Rightarrow> (Hangs, s1))"

definition cancel :: "string \<Rightarrow> ModelDownloader \<Rightarrow> bool \<times> ModelDownloader" where
  "cancel mid s =
     (case map_of (active_tasks s) mid of
        None \<Rightarrow> (False, s)
      | Some ref \<Rightarrow>
          (True,
           update_task ref
             (\<lambda>t. t\<lparr>cancel_event := True, task_status := CANCELLED,
                    progress := (progress t)\<lparr>dp_status := CANCELLED\<rparr>\<rparr>) s))"

definition task_status_of :: "ModelDownloader \<Rightarrow> nat \<Rightarrow> DownloadStatus option" where
  "task_status_of s ref = map_option task_status (task_at s ref)"


definition get_recommended_patterns :: "string \<Rightarrow> string list \<times> string list" where
  "get_recommended_patterns t =
     (if t = ''gguf'' then
        ([''*.gguf'', ''config.json'', ''tokenizer*''],
         [''*.safetensors'', ''*.bin'', ''*.pt'', ''pytorch_model*''])
      else if t = ''gptq'' then
        ([''*.safetensors'', ''config.json'', ''tokenizer*'', ''quantize_config.json''],
         [''*.gguf'', ''*.bin''])
      else if t = ''awq'' then
        ([''*.safetensors'', ''config.json'', ''tokenizer*'', ''quant_config.json''],
         [''*.gguf'', ''*.bin''])
      else if t = ''safetensors'' then
        ([''*.safetensors'', ''config.json'', ''tokenizer*'', ''generation_config.json''],
         [''*.gguf'', ''pytorch_model*.bin''])
      else ([], []))"

section \<open>Manager (manager.py)\<close>

record ModelManager =
  registry :: ModelRegistry
  downloader :: ModelDownloader
  loader :: ModelLoader

definition ModelManager_init ::
  "string \<Rightarrow> file_content option \<Rightarrow> string list \<Rightarrow> int \<Rightarrow> nat \<Rightarrow> string \<Rightarrow> bool \<Rightarrow> ModelManager" where
  "ModelManager_init cache_dir file on_disk max_loaded max_concurrent dev torch =
     \<lparr>registry = ModelRegistry_init file,
      downloader = ModelDownloader_init cache_dir max_concurrent on_disk,
      loader = ModelLoader_init max_loaded dev torch\<rparr>"

text \<open>
  What the world outside the process answers during one call of the manager: the clock,
  the file system on a registry write, the remote transfer, the remote
  \<^verbatim>\<open>pipeline_tag\<close> (or the exception of \<^verbatim>\<open>get_model_info\<close>), the weight loading,
  \<^verbatim>\<open>shutil.rmtree\<close>, and the inference.
\<close>

record env =
  now :: string
  write_fault :: write_fault
  transfer :: transfer_result
  pipeline_tag :: "error + string option"
  weights :: "error option"
  rmtree_ok :: bool
  infer :: "error + string"

text \<open>Sequencing of awaited calls, and \<^verbatim>\<open>try: ... except Exception as e: ...\<close>.\<close>

definition and_then :: "'a outcome \<times> 's \<Rightarrow> ('a \<Rightarrow> 's \<Rightarrow> 'b outcome \<times> 's) \<Rightarrow> 'b outcome \<times> 's" where
  "and_then x f =
     (case x of
        (Returns v, s) \<Rightarrow> f v s
      | (Raises e, s) \<Rightarrow> (Raises e, s)
      | (Hangs, s) \<Rightarrow> (Hangs, s))"

definition try_except :: "'a outcome \<times> 's \<Rightarrow> (error \<Rightarrow> 's \<Rightarrow> 'a outcome \<times> 's) \<Rightarrow> 'a outcome \<times> 's" where
  "try_except x h = (case x of (Raises e, s) \<Rightarrow> h e s | (r, s) \<Rightarrow> (r, s))"

definition on_registry ::
  "(ModelRegistry \<Rightarrow> 'a outcome \<times> ModelRegistry) \<Rightarrow> ModelManager \<Rightarrow> 'a outcome \<times> ModelManager" where
  "on_registry f m = (case f (registry m) of (x, r) \<Rightarrow> (x, m\<lparr>registry := r\<rparr>))"

definition on_downloader ::
  "(ModelDownloader \<Rightarrow> 'a outcome \<times> ModelDownloader) \<Rightarrow> ModelManager \<Rightarrow> 'a outcome \<times> ModelManager" where
  "on_downloader f m = (case f (downloader m) of (x, d) \<Rightarrow> (x, m\<lparr>downloader := d\<rparr>))"

definition on_loader ::
  "(ModelLoader \<Rightarrow> 'a outcome \<times> ModelLoader) \<Rightarrow> ModelManager \<Rightarrow> 'a outcome \<times> ModelManager" where
  "on_loader f m = (case f (loader m) of (x, l) \<Rightarrow> (x, m\<lparr>loader := l\<rparr>))"

definition transfer_size :: "transfer_result \<Rightarrow> int" where
  "transfer_size t = (case t of TransferOk n \<Rightarrow> n | TransferFailed e c \<Rightarrow> 0)"

text \<open>
  \<^verbatim>\<open>download_model\<close> after the early return: patterns, task, placeholder, transfer,
  final record. \<^verbatim>\<open>None\<close> and \<^verbatim>\<open>[]\<close> behave alike for the two pattern arguments
  and are both \<open>[]\<close>. The progress callback only runs the callbacks of
  \<^verbatim>\<open>_download_callbacks\<close>, which nothing ever fills.
\<close>

definition fetch_model ::
  "env \<Rightarrow> string \<Rightarrow> string \<Rightarrow> string option \<Rightarrow> string list \<Rightarrow> string list \<Rightarrow> bool \<Rightarrow> ModelManager
     \<Rightarrow> LocalModelInfo outcome \<times> ModelManager" where
  "fetch_model e mid rv quant inc exc force m =
     (let pats = (case quant of
                    Some q \<Rightarrow> if q \<noteq> [] \<and> inc = [] \<and> exc = []
                              then get_recommended_patterns q else (inc, exc)
                  | None \<Rightarrow> (inc, exc));
          (ref, d1) = alloc_task (DownloadTask_new mid rv (fst pats) (snd pats) force) (downloader m);
          placeholder = (LocalModelInfo_new mid [])\<lparr>status := DOWNLOADING, revision := rv,
                                                    quantization := quant\<rparr>
      in and_then (on_registry (register (write_fault e) (now e) placeholder) (m\<lparr>downloader := d1\<rparr>))
           (\<lambda>u m2.
              try_except
                (and_then (on_downloader (download ref (transfer e) (now e)) m2)
                   (\<lambda>path m3.
                      (let info = (LocalModelInfo_new mid path)
                             \<lparr>status := READY, size_bytes := transfer_size (transfer e),
                              downloaded_at := Some (now e), revision := rv,
                              model_type := (case pipeline_tag e of
                                               Inl x \<Rightarrow> Some ''unknown'' | Inr t \<Rightarrow> t),
                              quantization := quant\<rparr>
                       in and_then (on_registry (register (write_fault e) (now e) info) m3)
                            (\<lambda>u m4. (Returns info, m4)))))
                (\<lambda>ex m3.
                   and_then (on_registry (update_status (write_fault e) (now e) mid ERROR
                                            (Some (str_of ex))) m3)
                     (\<lambda>u m4. (Raises ex, m4)))))"

definition download_model ::
  "env \<Rightarrow> string \<Rightarrow> string \<Rightarrow> string option \<Rightarrow> string list \<Rightarrow> string list \<Rightarrow> bool \<Rightarrow> ModelManager
     \<Rightarrow> LocalModelInfo outcome \<times> ModelManager" where
  "download_model e mid rv quant inc exc force m =
     (case registry_get (registry m) mid of
        Some existing \<Rightarrow>
          if status existing = READY \<and> \<not> force then (Returns existing, m)
          else fetch_model e mid rv quant inc exc force m
      | None \<Rightarrow> fetch_model e mid rv quant inc exc force m)"

definition cancel_download :: "env \<Rightarrow> string \<Rightarrow> ModelManager \<Rightarrow> bool outcome \<times> ModelManager" where
  "cancel_download e mid m =
     (case cancel mid (downloader m) of
        (cancelled, d1) \<Rightarrow>
          if cancelled then
            and_then (on_registry (update_status (write_fault e) (now e) mid ERROR (Some ''Cancelled''))
                        (m\<lparr>downloader := d1\<rparr>))
              (\<lambda>u m2. (Returns cancelled, m2))
          else (Returns cancelled, m\<lparr>downloader := d1\<rparr>))"



text \<open>The dictionary \<^verbatim>\<open>load_model\<close> returns.\<close>

record load_info =
  li_model_id :: string
  li_device :: string
  li_dtype :: string
  li_loaded_at :: string
  li_local_path :: string

definition load_model ::
  "env \<Rightarrow> string \<Rightarrow> string \<Rightarrow> string \<Rightarrow> ModelManager \<Rightarrow> load_info outcome \<times> ModelManager" where
  "load_model e mid device dtype m =
     and_then (case registry_get (registry m) mid of
                 Some local_model \<Rightarrow>
                   if status local_model = READY \<or> status local_model = LOADED
                   then (Returns local_model, m)
                   else download_model e mid ''main'' None [] [] False m
               | None \<Rightarrow> download_model e mid ''main'' None [] [] False m)
       (\<lambda>local_model m1.
          and_then (on_registry (update_status (write_fault e) (now e) mid LOADING None) m1)
            (\<lambda>u m2.
               try_except
                 (and_then (on_loader (load mid device dtype (weights e) (now e)) m2)
                    (\<lambda>loaded m3.
                       and_then (on_registry (update_status (write_fault e) (now e) mid LOADED None) m3)
                         (\<lambda>u m4.
                            (Returns \<lparr>li_model_id = lm_model_id loaded,
                                      li_device = lm_device loaded,
                                      li_dtype = lm_dtype loaded,
                                      li_loaded_at = loaded_at loaded,
                                      li_local_path = local_path local_model\<rparr>, m4))))
                 (\<lambda>ex m3.
                    and_then (on_registry (update_status (write_fault e) (now e) mid READY
                                             (Some (str_of ex))) m3)
                      (\<lambda>u m4. (Raises ex, m4)))))"

definition unload_model :: "env \<Rightarrow> string \<Rightarrow> ModelManager \<Rightarrow> bool outcome \<times> ModelManager" where
  "unload_model e mid m =
     and_then (on_loader (unload mid) m)
       (\<lambda>result m1.
          if result then
            and_then (on_registry (update_status (write_fault e) (now e) mid READY None) m1)
              (\<lambda>u m2. (Returns result, m2))
          else (Returns result, m1))"

definition is_model_loaded :: "ModelManager \<Rightarrow> string \<Rightarrow> bool" where
  "is_model_loaded m mid = is_loaded (loader m) mid"

definition manager_generate :: "env \<Rightarrow> string \<Rightarrow> ModelManager \<Rightarrow> string outcome \<times> ModelManager" where
  "manager_generate e mid m =
     and_then (if \<not> is_loaded (loader m) mid
               then and_then (load_model e mid ''auto'' ''auto'' m) (\<lambda>i m1. (Returns (), m1))
               else (Returns (), m))
       (\<lambda>u m1. on_loader (generate mid (infer e) (now e)) m1)"

definition hot_swap ::
  "env \<Rightarrow> string \<Rightarrow> string \<Rightarrow> string \<Rightarrow> string \<Rightarrow> ModelManager \<Rightarrow> load_info outcome \<times> ModelManager" where
  "hot_swap e current_model new_model device dtype m =
     and_then (unload_model e current_model m)
       (\<lambda>b m1. load_model e new_model device dtype m1)"

text \<open>The status the registry shows for a model, \<open>None\<close> if it has no record.\<close>

definition status_of :: "ModelManager \<Rightarrow> string \<Rightarrow> ModelStatus option" where
  "status_of m mid = map_option status (registry_get (registry m) mid)"

section \<open>Scenarios\<close>

text \<open>A loader for two models after \<^verbatim>\<open>load("A")\<close> and \<^verbatim>\<open>load("B")\<close>.\<close>

definition two_resident :: ModelLoader where
  "two_resident =
     snd (load ''B'' ''auto'' ''auto'' None ''2024-05-01T10:00:02''
       (snd (load ''A'' ''auto'' ''auto'' None ''2024-05-01T10:00:01''
          (ModelLoader_init 2 ''cpu'' True))))"

definition four_calls :: "loader_call list" where
  "four_calls =
     [Load ''A'' ''auto'' ''auto'' None ''2024-05-01T10:00:01'',
      Load ''B'' ''auto'' ''auto'' None ''2024-05-01T10:00:02'',
      Unload ''A'',
      Load ''C'' ''cpu'' ''float16'' None ''2024-05-01T10:00:04'']"

definition two_records :: ModelRegistry where
  "two_records =
     \<lparr>models =
        [(''org/a'', (LocalModelInfo_new ''org/a'' ''/cache/org--a'')
            \<lparr>size_bytes := 1024, downloaded_at := Some ''2024-05-01T09:00:00'',
             model_type := Some ''text-generation''\<rparr>),
         (''org/b'', (LocalModelInfo_new ''org/b'' [])
            \<lparr>status := ERROR, quantization := Some ''gguf'',
             error_message := Some ''connection reset''\<rparr>)],
      registry_file = None\<rparr>"

definition one_task :: ModelDownloader where
  "one_task =
     snd (alloc_task (DownloadTask_new ''demo/model-7b'' ''main'' [] [] False)
            (ModelDownloader_init ''/cache'' 2 []))"

definition transferring :: ModelDownloader where
  "transferring = snd (download_begin 0 ''2024-05-01T10:00:01'' one_task)"

definition cancelled :: ModelDownloader where
  "cancelled = snd (cancel ''demo/model-7b'' transferring)"

text \<open>An environment in which nothing goes wrong, and one in which the weights do not load.\<close>

definition calm :: env where
  "calm = \<lparr>now = ''2024-05-01T10:00:00'', write_fault = NoFault, transfer = TransferOk 4096,
            pipeline_tag = Inr (Some ''text-generation''), weights = None, rmtree_ok = True,
            infer = Inr ''hello''\<rparr>"

definition oom :: env where
  "oom = calm\<lparr>weights := Some (Exn ''CUDA out of memory'')\<rparr>"

text \<open>
  A new manager on an empty cache directory; the same after \<^verbatim>\<open>download_model("org/x")\<close>;
  and after \<^verbatim>\<open>load_model("org/x")\<close> on top of that.
\<close>

definition fresh :: ModelManager where
  "fresh = ModelManager_init ''/cache'' None [] 2 2 ''cpu'' True"

definition ready_x :: ModelManager where
  "ready_x = snd (download_model calm ''org/x'' ''main'' None [] [] False fresh)"

definition record_x :: LocalModelInfo where
  "record_x = (LocalModelInfo_new ''org/x'' ''/cache/org--x'')
      \<lparr>size_bytes := 4096, downloaded_at := Some ''2024-05-01T10:00:00'',
       model_type := Some ''text-generation''\<rparr>"

definition loaded_x :: ModelManager where
  "loaded_x = snd (load_model calm ''org/x'' ''auto'' ''auto'' ready_x)"

text \<open>A manager with two models loaded, which is its capacity.\<close>

definition full :: ModelManager where
  "full = snd (load_model calm ''org/b'' ''auto'' ''auto''
            (snd (load_model calm ''org/a'' ''auto'' ''auto'' fresh)))"


text \<open>
  Every entry of \<^verbatim>\<open>_loaded_models\<close> is stored under its own \<^verbatim>\<open>model_id\<close>;
  \<^verbatim>\<open>load\<close>, the only writer, keeps it so.
\<close>

definition keys_match :: "ModelLoader \<Rightarrow> bool" where
  "keys_match s = list_all (\<lambda>(k, m). lm_model_id m = k) (loaded_models s)"

text \<open>
  Two loads that overlap on a loader for one model, as \<^verbatim>\<open>asyncio.gather(load("A"),
  load("B"))\<close> runs them: \<^verbatim>\<open>load("A")\<close> passes its first critical section and
  awaits the weight loading, \<^verbatim>\<open>load("B")\<close> does the same, then each inserts its
  entry in its second critical section.
\<close>

definition loader_one :: ModelLoader where
  "loader_one = ModelLoader_init 1 ''cpu'' True"

definition a_checked :: ModelLoader where
  "a_checked = snd (load_begin ''A'' loader_one)"

definition both_checked :: ModelLoader where
  "both_checked = snd (load_begin ''B'' a_checked)"

definition entry_a :: LoadedModel where
  "entry_a = new_loaded ''A'' ''auto'' ''auto'' ''2024-05-01T10:00:01'' a_checked"

definition entry_b :: LoadedModel where
  "entry_b = new_loaded ''B'' ''auto'' ''auto'' ''2024-05-01T10:00:02'' both_checked"

definition a_inserted :: ModelLoader where
  "a_inserted = snd (load_finish ''A'' entry_a both_checked)"

definition both_inserted :: ModelLoader where
  "both_inserted = snd (load_finish ''B'' entry_b a_inserted)"

text \<open>A new process started on the registry file and directories that \<open>loaded_x\<close> left.\<close>

definition restarted :: ModelManager where
  "restarted =
     ModelManager_init ''/cache'' (registry_file (registry loaded_x))
       (dirs (downloader loaded_x)) 2 2 ''cpu'' True"

section \<open>Loader: capacity and eviction\<close>

lemma length_update:
  "length (AList.update k v al) = (if map_of al k = None then Suc (length al) else length al)"
  by (induction al) auto

lemma unload_length:
  "unload mid s = (r, s') \<Longrightarrow>
     length (loaded_models s') \<le> length (loaded_models s) \<and>
     max_loaded_models s' = max_loaded_models s"
  by (auto simp: unload_def AList.length_delete_le split: if_splits)

text \<open>
  The loop never adds an entry, and when it returns the loader is below capacity.
\<close>

lemma evict_length:
  "evict_if_needed s = (r, s') \<Longrightarrow>
     length (loaded_models s') \<le> length (loaded_models s) \<and>
     max_loaded_models s' = max_loaded_models s \<and>
     (r = Returns () \<longrightarrow> int (length (loaded_models s')) < max_loaded_models s)"
proof (induction s arbitrary: r s' rule: evict_if_needed.induct)
  case (1 s)
  show ?case
  proof (cases "int (length (loaded_models s)) \<ge> max_loaded_models s")
    case False
    with "1.prems" show ?thesis by (simp add: evict_if_needed.simps)
  next
    case True
    show ?thesis
    proof (cases "lru_model (loaded_models s)")
      case (Inl e)
      with True "1.prems" show ?thesis by (auto simp: evict_if_needed.simps)
    next
      case (Inr lru)
      obtain x s1 where u: "unload (lm_model_id lru) s = (x, s1)" by force
      note s1 = unload_length[OF u]
      show ?thesis
      proof (cases "x = Returns True")
        case evicted: True
        with True Inr u "1.prems" have "evict_if_needed s1 = (r, s')"
          by (simp add: evict_if_needed.simps[of s])
        from "1.IH"[OF True Inr u[symmetric] evicted refl this] s1 show ?thesis by auto
      next
        case False
        with True Inr u "1.prems" s1 show ?thesis
          by (cases x; auto simp: evict_if_needed.simps[of s] split: bool.splits)
      qed
    qed
  qed
qed

text \<open>
  Under the lock, as \<^verbatim>\<open>load\<close> calls it, the loop cannot evict anything: its first
  \<^verbatim>\<open>unload\<close> waits for the lock the caller holds.
\<close>

lemma evict_lock_held:
  "lock_held s \<Longrightarrow> max_loaded_models s \<le> int (length (loaded_models s)) \<Longrightarrow>
   loaded_models s \<noteq> [] \<Longrightarrow> evict_if_needed s = (Hangs, s)"
  by (cases "loaded_models s") (auto simp: evict_if_needed.simps lru_model_def unload_def)

text \<open>
  With the lock free, a capacity of at least one and every entry under its own key, the
  loop does end below capacity and only removes entries.
\<close>

lemma min_by_last_used_mem: "min_by_last_used m xs \<in> set (m # xs)"
  by (induction xs arbitrary: m) auto

lemma lru_model_mem:
  "d \<noteq> [] \<Longrightarrow> \<exists>m. lru_model d = Inr m \<and> m \<in> snd ` set d"
proof (cases d)
  case Nil
  assume "d \<noteq> []"
  with Nil show ?thesis by simp
next
  case (Cons p ps)
  have "min_by_last_used (snd p) (map snd ps) \<in> set (snd p # map snd ps)"
    by (rule min_by_last_used_mem)
  with Cons show ?thesis by (auto simp: lru_model_def)
qed

lemma evict_lock_free:
  "\<not> lock_held s \<Longrightarrow> keys_match s \<Longrightarrow> 0 < max_loaded_models s \<Longrightarrow>
   fst (evict_if_needed s) = Returns ()
   \<and> int (length (loaded_models (snd (evict_if_needed s)))) < max_loaded_models s
   \<and> set (loaded_models (snd (evict_if_needed s))) \<subseteq> set (loaded_models s)"
proof (induction s rule: evict_if_needed.induct)
  case (1 s)
  show ?case
  proof (cases "int (length (loaded_models s)) \<ge> max_loaded_models s")
    case False
    then show ?thesis by (simp add: evict_if_needed.simps)
  next
    case True
    with "1.prems" have ne: "loaded_models s \<noteq> []" by auto
    from lru_model_mem[OF ne] obtain lru where
      lru: "lru_model (loaded_models s) = Inr lru" and mem: "lru \<in> snd ` set (loaded_models s)"
      by blast
    from mem "1.prems"(2) have "(lm_model_id lru, lru) \<in> set (loaded_models s)"
      by (auto simp: keys_match_def list_all_iff)
    then have present: "map_of (loaded_models s) (lm_model_id lru) \<noteq> None"
      by (metis fst_conv image_eqI map_of_eq_None_iff)
    define s' where "s' = s\<lparr>loaded_models := AList.delete (lm_model_id lru) (loaded_models s)\<rparr>"
    from present "1.prems"(1) have u: "unload (lm_model_id lru) s = (Returns True, s')"
      by (simp add: unload_def s'_def)
    have sub: "set (loaded_models s') \<subseteq> set (loaded_models s)"
      by (auto simp: s'_def AList.delete_eq)
    with "1.prems" have p': "\<not> lock_held s'" "keys_match s'" "0 < max_loaded_models s'"
      by (auto simp: s'_def keys_match_def list_all_iff)
    from "1.IH"[OF True lru u[symmetric] refl refl p'] sub
    have "fst (evict_if_needed s') = Returns ()
      \<and> int (length (loaded_models (snd (evict_if_needed s')))) < max_loaded_models s
      \<and> set (loaded_models (snd (evict_if_needed s'))) \<subseteq> set (loaded_models s)"
      by (auto simp: s'_def)
    moreover from True lru u have "evict_if_needed s = evict_if_needed s'"
      by (simp add: evict_if_needed.simps[of s])
    ultimately show ?thesis by simp
  qed
qed

lemma load_begin_length:
  "load_begin mid s = (r, s') \<Longrightarrow>
     length (loaded_models s') \<le> length (loaded_models s) \<and>
     max_loaded_models s' = max_loaded_models s \<and>
     (r = Returns Proceed \<longrightarrow> int (length (loaded_models s')) < max_loaded_models s)"
proof (cases "lock_held s \<or> map_of (loaded_models s) mid \<noteq> None")
  case True
  assume "load_begin mid s = (r, s')"
  with True show ?thesis by (auto simp: load_begin_def split: if_splits)
next
  case False
  assume lb: "load_begin mid s = (r, s')"
  obtain x s1 where ev: "evict_if_needed (s\<lparr>lock_held := True\<rparr>) = (x, s1)" by force
  from evict_length[OF ev] have
    "length (loaded_models s1) \<le> length (loaded_models s)"
    "max_loaded_models s1 = max_loaded_models s"
    "x = Returns () \<longrightarrow> int (length (loaded_models s1)) < max_loaded_models s"
    by simp_all
  with False lb ev show ?thesis
    by (cases x) (auto simp: load_begin_def)
qed

lemma load_capacity:
  assumes "load mid device dtype w t s = (r, s')"
    and "int (length (loaded_models s)) \<le> max_loaded_models s"
  shows "int (length (loaded_models s')) \<le> max_loaded_models s'
         \<and> max_loaded_models s' = max_loaded_models s"
proof -
  obtain x s1 where lb: "load_begin mid s = (x, s1)" by force
  note b = load_begin_length[OF lb]
  show ?thesis
  proof (cases "x = Returns Proceed \<and> w = None")
    case True
    with assms(1) lb have "load_finish mid (new_loaded mid device dtype t s1) s1 = (r, s')"
      by (simp add: load_def)
    with b True show ?thesis
      by (auto simp: load_finish_def length_update split: if_splits)
  next
    case False
    with assms lb b show ?thesis
      by (cases x; cases w) (auto simp: load_def split: load_gate.splits)
  qed
qed

lemma exec_call_capacity:
  assumes "int (length (loaded_models s)) \<le> max_loaded_models s"
  shows "int (length (loaded_models (exec_call c s))) \<le> max_loaded_models (exec_call c s)
         \<and> max_loaded_models (exec_call c s) = max_loaded_models s"
proof (cases c)
  case (Load mid device dtype w t)
  with load_capacity[OF _ assms, of mid device dtype w t] show ?thesis
    by (cases "load mid device dtype w t s") simp
next
  case (Unload mid)
  with unload_length[of mid s] assms show ?thesis
    by (cases "unload mid s") fastforce
next
  case (Generate mid inf t)
  with assms show ?thesis
    by (auto simp: generate_def length_update Let_def split: option.splits sum.splits)
qed

text \<open>Every call keeps each entry under its own key.\<close>

lemma evict_subset:
  "set (loaded_models (snd (evict_if_needed s))) \<subseteq> set (loaded_models s)"
proof (induction s rule: evict_if_needed.induct)
  case (1 s)
  show ?case
  proof (cases "int (length (loaded_models s)) \<ge> max_loaded_models s")
    case False
    then show ?thesis by (simp add: evict_if_needed.simps)
  next
    case True
    show ?thesis
    proof (cases "lru_model (loaded_models s)")
      case (Inl e)
      with True show ?thesis by (simp add: evict_if_needed.simps)
    next
      case (Inr lru)
      obtain x s1 where u: "unload (lm_model_id lru) s = (x, s1)" by force
      then have sub: "set (loaded_models s1) \<subseteq> set (loaded_models s)"
        by (auto simp: unload_def AList.delete_eq split: if_splits)
      show ?thesis
      proof (cases "x = Returns True")
        case evicted: True
        with True Inr u have "evict_if_needed s = evict_if_needed s1"
          by (simp add: evict_if_needed.simps[of s])
        with "1.IH"[OF True Inr u[symmetric] evicted refl] sub show ?thesis by auto
      next
        case False
        with True Inr u sub show ?thesis
          by (cases x; auto simp: evict_if_needed.simps[of s] split: bool.splits)
      qed
    qed
  qed
qed

lemma list_all_update:
  "list_all P al \<Longrightarrow> P (k, v) \<Longrightarrow> list_all P (AList.update k v al)"
  by (induction al) auto

lemma exec_call_keys_match: "keys_match s \<Longrightarrow> keys_match (exec_call c s)"
proof (cases c)
  case (Load mid device dtype w t)
  assume km: "keys_match s"
  have sub: "set (loaded_models (snd (load_begin mid s))) \<subseteq> set (loaded_models s)"
    using evict_subset[of "s\<lparr>lock_held := True\<rparr>"]
    by (cases "evict_if_needed (s\<lparr>lock_held := True\<rparr>)")
       (auto simp: load_begin_def split: option.splits outcome.splits)
  with km have km1: "keys_match (snd (load_begin mid s))"
    by (auto simp: keys_match_def list_all_iff)
  have "keys_match (snd (load mid device dtype w t s))"
    using km1
    by (cases "load_begin mid s")
       (auto simp: load_def load_finish_def keys_match_def new_loaded_def Let_def
          intro!: list_all_update split: outcome.splits load_gate.splits option.splits)
  with Load show ?thesis by simp
next
  case (Unload mid)
  assume "keys_match s"
  with Unload show ?thesis
    by (auto simp: unload_def keys_match_def list_all_iff AList.delete_eq)
next
  case (Generate mid inf t)
  assume km: "keys_match s"
  show ?thesis
  proof (cases "map_of (loaded_models s) mid")
    case None
    with Generate km show ?thesis by (simp add: generate_def)
  next
    case (Some m)
    then have "(mid, m) \<in> set (loaded_models s)" by (rule map_of_SomeD)
    with km have "lm_model_id m = mid" by (auto simp: keys_match_def list_all_iff)
    with Generate km Some show ?thesis
      by (auto simp: generate_def keys_match_def update_usage_def Let_def
          intro!: list_all_update split: sum.splits)
  qed
qed

text \<open>
  Calls made one after the other, each awaited before the next: on a loader that starts
  within its capacity (a new loader with a capacity of at least zero does), the number
  of resident entries after each \<^verbatim>\<open>load\<close>, \<^verbatim>\<open>unload\<close> and \<^verbatim>\<open>generate\<close> is
  at most \<^verbatim>\<open>max_loaded_models\<close>, whether the call returned, raised or did not
  return. At capacity this holds because the load that would have to evict does not
  return.
\<close>

lemma capacity_sequential:
  "int (length (loaded_models s0)) \<le> max_loaded_models s0 \<Longrightarrow>
   s \<in> set (run_calls cs s0) \<Longrightarrow>
   int (length (loaded_models s)) \<le> max_loaded_models s0"
proof (induction cs arbitrary: s0)
  case Nil
  then show ?case by simp
next
  case (Cons c cs)
  from exec_call_capacity[OF Cons.prems(1), of c]
  have inv: "int (length (loaded_models (exec_call c s0))) \<le> max_loaded_models (exec_call c s0)"
    and mx: "max_loaded_models (exec_call c s0) = max_loaded_models s0" by simp_all
  from Cons.prems(2) consider "s = exec_call c s0" | "s \<in> set (run_calls cs (exec_call c s0))"
    by auto
  then show ?case
  proof cases
    case 1
    with inv mx show ?thesis by simp
  next
    case 2
    from Cons.IH[OF inv 2] mx show ?thesis by simp
  qed
qed

lemma capacity_sequential_example:
  "int (length (loaded_models (ModelLoader_init 2 ''cpu'' True)))
     \<le> max_loaded_models (ModelLoader_init 2 ''cpu'' True)
   \<and> last (run_calls four_calls (ModelLoader_init 2 ''cpu'' True))
       \<in> set (run_calls four_calls (ModelLoader_init 2 ''cpu'' True))
   \<and> int (length (loaded_models (last (run_calls four_calls (ModelLoader_init 2 ''cpu'' True)))))
       \<le> max_loaded_models (ModelLoader_init 2 ''cpu'' True)"
proof -
  have h1: "int (length (loaded_models (ModelLoader_init 2 ''cpu'' True)))
     \<le> max_loaded_models (ModelLoader_init 2 ''cpu'' True)"
    by (simp add: ModelLoader_init_def)
  have h2: "last (run_calls four_calls (ModelLoader_init 2 ''cpu'' True))
       \<in> set (run_calls four_calls (ModelLoader_init 2 ''cpu'' True))"
    by (rule last_in_set) (simp add: four_calls_def)
  from h1 h2 capacity_sequential[OF h1 h2] show ?thesis by simp
qed

text \<open>
  Claim C5 (capacity invariant: after each completed \<^verbatim>\<open>load\<close> the number of
  resident entries is at most \<^verbatim>\<open>max_loaded_models\<close>). The code does not keep this
  for loads that overlap. \<^verbatim>\<open>load\<close> checks the capacity in one critical section,
  releases the lock while the weights load, and inserts in a second critical section
  without checking again: on a loader for one model, two loads both pass the check on
  the empty loader, both complete, and two models are resident.
\<close>

theorem overlapping_loads_exceed_capacity:
  "fst (load_begin ''A'' loader_one) = Returns Proceed
   \<and> fst (load_begin ''B'' a_checked) = Returns Proceed
   \<and> fst (load_finish ''A'' entry_a both_checked) = Returns entry_a
   \<and> fst (load_finish ''B'' entry_b a_inserted) = Returns entry_b
   \<and> map fst (loaded_models both_inserted) = [''A'', ''B'']
   \<and> max_loaded_models both_inserted = 1
   \<and> \<not> int (length (loaded_models both_inserted)) \<le> max_loaded_models both_inserted"
  by (simp add: both_inserted_def a_inserted_def entry_a_def entry_b_def both_checked_def
      a_checked_def loader_one_def load_begin_def load_finish_def ModelLoader_init_def
      evict_if_needed.simps new_loaded_def get_device_def get_dtype_def)

text \<open>
  Claim C6 (\<^verbatim>\<open>_evict_if_needed\<close> is total and safe for all configurations). The
  code does not do this. With a capacity of zero and nothing resident the loop is
  entered and \<^verbatim>\<open>min()\<close> of the empty dictionary raises \<^verbatim>\<open>ValueError\<close>. With two
  models resident and the capacity reduced to one, the call under the lock (the only
  way the code calls it) does not return and evicts nothing.
\<close>

theorem evict_if_needed_not_total:
  "evict_if_needed (ModelLoader_init 0 ''cpu'' True) =
     (Raises (ValueError ''min() arg is an empty sequence''), ModelLoader_init 0 ''cpu'' True)
   \<and> fst (evict_if_needed (two_resident\<lparr>max_loaded_models := 1, lock_held := True\<rparr>)) = Hangs
   \<and> map fst (loaded_models
        (snd (evict_if_needed (two_resident\<lparr>max_loaded_models := 1, lock_held := True\<rparr>))))
       = [''A'', ''B'']"
  by (simp add: evict_if_needed.simps ModelLoader_init_def lru_model_def two_resident_def
      load_def load_begin_def load_finish_def new_loaded_def get_device_def get_dtype_def
      unload_def)

text \<open>
  Claim C7 (LRU eviction order: with a capacity of two and A, B, C loaded in that order,
  loading C evicts exactly A, and B and C remain resident). The code does not do this.
  \<^verbatim>\<open>min\<close> does select A, the oldest entry, but the \<^verbatim>\<open>unload\<close> of A is awaited
  under the loader's lock and waits for that lock: the third \<^verbatim>\<open>load\<close> never
  returns, A and B stay resident and C is never loaded.
\<close>

theorem load_third_model_hangs:
  "map_option lm_model_id
     (case lru_model (loaded_models two_resident) of Inl e \<Rightarrow> None | Inr m \<Rightarrow> Some m) = Some ''A''
   \<and> fst (load ''C'' ''auto'' ''auto'' None ''2024-05-01T10:00:03'' two_resident) = Hangs
   \<and> map fst (loaded_models
        (snd (load ''C'' ''auto'' ''auto'' None ''2024-05-01T10:00:03'' two_resident)))
       = [''A'', ''B'']"
  by (simp add: two_resident_def load_def load_begin_def load_finish_def new_loaded_def
      ModelLoader_init_def evict_if_needed.simps get_device_def get_dtype_def lru_model_def
      unload_def)

section \<open>Registry: persistence\<close>

lemma ModelStatus_roundtrip: "ModelStatus_of (status_value st) = Some st"
  by (cases st) (simp_all add: ModelStatus_of_def)

lemma dec_opt_str_json_opt: "dec_opt_str (json_opt x) = Some x"
  by (cases x) (simp_all add: json_opt_def)

lemma status_field_to_dict: "status_field (to_dict m) = Some (status m)"
  by (simp add: status_field_def to_dict_def ModelStatus_roundtrip)

lemma keys_to_dict: "map fst (to_dict m) = field_names"
  by (simp add: to_dict_def field_names_def)

lemma build_info_to_dict: "build_info (status m) (to_dict m) = Some m"
  by (simp add: build_info_def to_dict_def get_field_def dec_opt_str_json_opt)

lemma required_to_dict:
  "map_of (to_dict m) ''model_id'' \<noteq> None \<and> map_of (to_dict m) ''local_path'' \<noteq> None"
  by (simp add: to_dict_def)

lemma from_dict_to_dict: "from_dict (to_dict m) = Inr m"
  using required_to_dict[of m]
  by (simp add: from_dict_def status_field_to_dict keys_to_dict build_info_to_dict)

lemma update_append_new: "k \<notin> fst ` set al \<Longrightarrow> AList.update k v al = al @ [(k, v)]"
  by (induction al) auto

lemma load_items_saved:
  "distinct (map fst (acc @ ms)) \<Longrightarrow>
   load_items (map (\<lambda>(k, info). (k, JObj (to_dict info))) ms) acc = Inr (acc @ ms)"
proof (induction ms arbitrary: acc)
  case Nil
  then show ?case by simp
next
  case (Cons p ms)
  obtain k info where p: "p = (k, info)" by (cases p)
  from Cons.prems p have fresh: "k \<notin> fst ` set acc" by auto
  from Cons.prems p have "distinct (map fst ((acc @ [(k, info)]) @ ms))" by auto
  from Cons.IH[OF this] fresh p show ?case
    by (simp add: from_dict_to_dict update_append_new)
qed

text \<open>
  Claim C2 (\<^verbatim>\<open>register\<close> surfaces a persistence failure as an error). The code does
  not raise: \<^verbatim>\<open>_save_registry\<close> catches every exception of the write and logs it.
  Here the write cannot open the file, and \<^verbatim>\<open>register\<close> returns normally.
\<close>

theorem register_raises_counterexample:
  "fst (write_snapshot OpenFails ''2024-05-01T10:00:00''
          ((ModelRegistry_init None)
             \<lparr>models := [(''org/m'', LocalModelInfo_new ''org/m'' ''/cache/org--m'')]\<rparr>))
     = Raises (OSError ''cannot open registry file'')
   \<and> fst (register OpenFails ''2024-05-01T10:00:00''
            (LocalModelInfo_new ''org/m'' ''/cache/org--m'') (ModelRegistry_init None))
     = Returns ()"
  by (simp add: register_def save_registry_def write_snapshot_def ModelRegistry_init_def
      load_registry_def LocalModelInfo_new_def)

text \<open>
  Claim C2 as amended. If the durable write cannot be completed, \<^verbatim>\<open>register\<close>
  returns normally (the error is logged, not raised), the in-memory map holds the
  record, and the file is left as the failed write left it: untouched if it could not be
  opened, unparseable if the dump broke off.
\<close>

theorem register_swallows_write_failure:
  "fault \<noteq> NoFault \<Longrightarrow>
   fst (register fault t info r) = Returns ()
   \<and> registry_get (snd (register fault t info r)) (model_id info) = Some info
   \<and> registry_file (snd (register fault t info r))
       = (if fault = OpenFails then registry_file r else Some Unparseable)"
  by (cases fault)
     (simp_all add: register_def save_registry_def write_snapshot_def registry_get_def
        AList.update_conv')

theorem register_swallows_write_failure_witness:
  "DumpFails \<noteq> NoFault
   \<and> fst (register DumpFails ''2024-05-01T10:00:00''
            (LocalModelInfo_new ''org/m'' ''/cache/org--m'') two_records) = Returns ()
   \<and> registry_get (snd (register DumpFails ''2024-05-01T10:00:00''
            (LocalModelInfo_new ''org/m'' ''/cache/org--m'') two_records)) ''org/m''
       = Some (LocalModelInfo_new ''org/m'' ''/cache/org--m'')
   \<and> registry_file (snd (register DumpFails ''2024-05-01T10:00:00''
            (LocalModelInfo_new ''org/m'' ''/cache/org--m'') two_records)) = Some Unparseable"
  using register_swallows_write_failure[of DumpFails "''2024-05-01T10:00:00''"
      "LocalModelInfo_new ''org/m'' ''/cache/org--m''" two_records]
  by (simp add: LocalModelInfo_new_def)

text \<open>
  Claim C9 (persistence round trip). Saving a registry and loading the file back gives
  the same records, every field equal, in the same order. A Python dictionary has each
  key once, which is the hypothesis on the association list.
\<close>

theorem registry_round_trip:
  "distinct (map fst (models r)) \<Longrightarrow>
   load_registry (registry_file (snd (save_registry NoFault t r))) = models r"
  using load_items_saved[of "[]" "models r"]
  by (simp add: save_registry_def write_snapshot_def load_registry_def snapshot_def)

theorem registry_round_trip_witness:
  "distinct (map fst (models two_records))
   \<and> load_registry (registry_file (snd (save_registry NoFault ''2024-05-01T10:00:00'' two_records)))
       = models two_records"
proof -
  have h: "distinct (map fst (models two_records))" by (simp add: two_records_def)
  from h registry_round_trip[OF h] show ?thesis by simp
qed

section \<open>Downloader: task status\<close>

text \<open>
  Claim C3 (a terminal download status is final; a task that \<^verbatim>\<open>cancel\<close> marked
  CANCELLED is never set to COMPLETED or FAILED afterwards). The code does not do this.
  \<^verbatim>\<open>cancel\<close> can only find a task while its \<^verbatim>\<open>download\<close> awaits the transfer;
  it sets \<^verbatim>\<open>cancel_event\<close> and the status, but the transfer is never told, and when
  it ends \<^verbatim>\<open>download\<close> overwrites CANCELLED with COMPLETED, or with FAILED.
\<close>

theorem cancelled_task_completes:
  "task_status_of one_task 0 = Some PENDING
   \<and> task_status_of transferring 0 = Some DS_DOWNLOADING
   \<and> fst (cancel ''demo/model-7b'' transferring) = True
   \<and> task_status_of cancelled 0 = Some CANCELLED
   \<and> map_option cancel_event (task_at cancelled 0) = Some True
   \<and> fst (download_finish 0 (TransferOk 4096) ''2024-05-01T10:00:09'' cancelled)
       = Returns ''/cache/demo--model-7b''
   \<and> task_status_of (snd (download_finish 0 (TransferOk 4096) ''2024-05-01T10:00:09'' cancelled)) 0
       = Some COMPLETED
   \<and> task_status_of (snd (download_finish 0 (TransferFailed (Exn ''connection reset'') False)
                              ''2024-05-01T10:00:09'' cancelled)) 0
       = Some FAILED"
  by (simp add: one_task_def transferring_def cancelled_def alloc_task_def DownloadTask_new_def
      ModelDownloader_init_def download_begin_def download_finish_def cancel_def task_at_def
      task_status_of_def update_task_def release_slot_def model_dir_def path_join_def
      make_dir_def below_def Let_def)

section \<open>Manager: workflows\<close>

lemma save_registry_returns:
  "fst (save_registry f t r) = Returns () \<and> models (snd (save_registry f t r)) = models r"
  by (cases f) (simp_all add: save_registry_def write_snapshot_def)

lemma register_returns:
  "fst (register f t info r) = Returns ()
   \<and> models (snd (register f t info r)) = AList.update (model_id info) info (models r)"
  by (simp add: register_def save_registry_returns)

lemma register_get:
  "registry_get (snd (register f t info r)) k =
     (if k = model_id info then Some info else registry_get r k)"
  by (simp add: registry_get_def register_returns AList.update_conv')

lemma update_status_returns:
  "fst (update_status f t mid st msg r) = Returns ()"
  by (simp add: update_status_def save_registry_returns Let_def split: option.splits)

lemma update_status_get:
  "registry_get (snd (update_status f t mid st msg r)) k =
     (if k = mid then
        map_option (\<lambda>x. if st = LOADED
                         then x\<lparr>status := st, error_message := msg, last_used := Some t\<rparr>
                         else x\<lparr>status := st, error_message := msg\<rparr>) (registry_get r mid)
      else registry_get r k)"
  by (simp add: update_status_def registry_get_def save_registry_returns Let_def AList.update_conv'
      split: option.splits)

lemma on_registry_update_status:
  "on_registry (update_status f t mid st msg) m =
     (Returns (), m\<lparr>registry := snd (update_status f t mid st msg (registry m))\<rparr>)"
  using update_status_returns[of f t mid st msg "registry m"]
  by (cases "update_status f t mid st msg (registry m)") (simp add: on_registry_def)

lemma on_registry_register:
  "on_registry (register f t info) m =
     (Returns (), m\<lparr>registry := snd (register f t info (registry m))\<rparr>)"
  using register_returns[of f t info "registry m"]
  by (cases "register f t info (registry m)") (simp add: on_registry_def)

lemma evict_below_capacity:
  "int (length (loaded_models s)) < max_loaded_models s \<Longrightarrow> evict_if_needed s = (Returns (), s)"
  by (simp add: evict_if_needed.simps)

lemma lock_free_id: "\<not> lock_held s \<Longrightarrow> s\<lparr>lock_held := False\<rparr> = (s::ModelLoader)"
  by (cases s) simp

lemma load_weights_fail:
  "\<not> lock_held s \<Longrightarrow> map_of (loaded_models s) mid = None \<Longrightarrow>
   int (length (loaded_models s)) < max_loaded_models s \<Longrightarrow>
   load mid device dtype (Some ex) t s = (Raises ex, s)"
  by (simp add: load_def load_begin_def evict_below_capacity lock_free_id)

lemma load_weights_ok:
  "\<not> lock_held s \<Longrightarrow> map_of (loaded_models s) mid = None \<Longrightarrow>
   int (length (loaded_models s)) < max_loaded_models s \<Longrightarrow>
   load mid device dtype None t s =
     (Returns (new_loaded mid device dtype t s),
      s\<lparr>loaded_models := AList.update mid (new_loaded mid device dtype t s) (loaded_models s)\<rparr>)"
  by (simp add: load_def load_begin_def evict_below_capacity lock_free_id load_finish_def)


lemma download_returns:
  "download ref res t s = (Returns p, s') \<Longrightarrow> task_at s ref = Some tk \<Longrightarrow>
   transfers s' = transfers s @ [task_model_id tk]"
  by (auto simp: download_def download_begin_def download_finish_def task_at_def update_task_def
      release_slot_def make_dir_def Let_def split: if_splits transfer_result.splits)

lemma fetch_model_returns:
  assumes "fetch_model e mid rv q inc exc force m = (Returns info, m1)"
  shows "registry_get (registry m1) mid = Some info \<and> status info = READY
         \<and> transfers (downloader m1) = transfers (downloader m) @ [mid]"
proof -
  define pats where "pats = (case q of
                    Some x \<Rightarrow> if x \<noteq> [] \<and> inc = [] \<and> exc = []
                              then get_recommended_patterns x else (inc, exc)
                  | None \<Rightarrow> (inc, exc))"
  define task where "task = DownloadTask_new mid rv (fst pats) (snd pats) force"
  define d1 where "d1 = (downloader m)\<lparr>tasks := tasks (downloader m) @ [task]\<rparr>"
  define ph where "ph = (LocalModelInfo_new mid [])\<lparr>status := DOWNLOADING, revision := rv,
                                                    quantization := q\<rparr>"
  define m2 where "m2 = m\<lparr>downloader := d1, registry := snd (register (write_fault e) (now e) ph (registry m))\<rparr>"
  obtain x d2 where dl: "download (length (tasks (downloader m))) (transfer e) (now e) d1 = (x, d2)"
    by force
  have at: "task_at d1 (length (tasks (downloader m))) = Some task"
    by (simp add: task_at_def d1_def)
  have tid: "task_model_id task = mid" by (simp add: task_def DownloadTask_new_def)
  show ?thesis
  proof (cases x)
    case (Returns path)
    from download_returns[OF dl[unfolded Returns] at] tid
    have tr: "transfers d2 = transfers (downloader m) @ [mid]" by (simp add: d1_def)
    from assms dl Returns tr show ?thesis
      by (simp add: fetch_model_def Let_def alloc_task_def and_then_def try_except_def
          on_registry_register on_downloader_def pats_def[symmetric] task_def[symmetric]
          d1_def[symmetric] LocalModelInfo_new_def)
         (auto simp: register_get)
  next
    case (Raises ex)
    with assms dl show ?thesis
      by (simp add: fetch_model_def Let_def alloc_task_def and_then_def try_except_def
          on_registry_register on_downloader_def pats_def[symmetric] task_def[symmetric]
          d1_def[symmetric] on_registry_update_status)
  next
    case Hangs
    with assms dl show ?thesis
      by (simp add: fetch_model_def Let_def alloc_task_def and_then_def try_except_def
          on_registry_register on_downloader_def pats_def[symmetric] task_def[symmetric]
          d1_def[symmetric])
  qed
qed

lemmas manager_eval =
  download_model_def fetch_model_def load_model_def fresh_def calm_def ModelManager_init_def
  ModelRegistry_init_def load_registry_def ModelDownloader_init_def ModelLoader_init_def
  registry_get_def alloc_task_def DownloadTask_new_def LocalModelInfo_new_def and_then_def
  try_except_def on_registry_def on_downloader_def on_loader_def register_def update_status_def
  save_registry_def write_snapshot_def download_def download_begin_def download_finish_def
  task_at_def update_task_def release_slot_def model_dir_def path_join_def make_dir_def
  below_def transfer_size_def Let_def
  load_def load_begin_def load_finish_def new_loaded_def get_device_def get_dtype_def
  evict_if_needed.simps lru_model_def unload_def status_of_def is_model_loaded_def is_loaded_def

lemma first_download:
  "download_model calm ''org/x'' ''main'' None [] [] False fresh = (Returns record_x, ready_x)"
  by (simp add: ready_x_def)
     (simp add: download_model_def fetch_model_def fresh_def calm_def ModelManager_init_def
      ModelRegistry_init_def load_registry_def ModelDownloader_init_def ModelLoader_init_def
      registry_get_def alloc_task_def DownloadTask_new_def LocalModelInfo_new_def and_then_def
      try_except_def on_registry_def on_downloader_def register_def save_registry_def
      write_snapshot_def download_def download_begin_def download_finish_def task_at_def
      update_task_def release_slot_def model_dir_def path_join_def make_dir_def below_def
      transfer_size_def record_x_def Let_def)

lemma ready_x_facts:
  "registry_get (registry ready_x) ''org/x'' = Some record_x
   \<and> loader ready_x = ModelLoader_init 2 ''cpu'' True
   \<and> transfers (downloader ready_x) = [''org/x'']"
  by (simp add: ready_x_def)
     (simp add: download_model_def fetch_model_def fresh_def calm_def ModelManager_init_def
      ModelRegistry_init_def load_registry_def ModelDownloader_init_def ModelLoader_init_def
      registry_get_def alloc_task_def DownloadTask_new_def LocalModelInfo_new_def and_then_def
      try_except_def on_registry_def on_downloader_def register_def save_registry_def
      write_snapshot_def download_def download_begin_def download_finish_def task_at_def
      update_task_def release_slot_def model_dir_def path_join_def make_dir_def below_def
      transfer_size_def record_x_def Let_def)



text \<open>
  Claim C8 (idempotent download). A \<^verbatim>\<open>download_model\<close> without \<^verbatim>\<open>force\<close> for a
  model whose record is READY returns that record and changes nothing, so no transfer is
  made. And when a first call without \<^verbatim>\<open>force\<close> returns, a second one returns the
  same record and leaves the state alone; the two calls together have made one
  transfer, or none if the record was READY from the start.
\<close>

theorem download_model_idempotent:
  "(registry_get (registry m) mid = Some existing \<and> status existing = READY \<longrightarrow>
      download_model e mid rv q inc exc False m = (Returns existing, m))
   \<and> (download_model e mid rv q inc exc False m = (Returns info, m1) \<longrightarrow>
        download_model e2 mid rv2 q2 inc2 exc2 False m1 = (Returns info, m1)
        \<and> transfers (downloader m1) =
            (if status_of m mid = Some READY then transfers (downloader m)
             else transfers (downloader m) @ [mid]))"
proof (intro conjI impI)
  assume "registry_get (registry m) mid = Some existing \<and> status existing = READY"
  then show "download_model e mid rv q inc exc False m = (Returns existing, m)"
    by (simp add: download_model_def)
next
  assume first: "download_model e mid rv q inc exc False m = (Returns info, m1)"
  show "download_model e2 mid rv2 q2 inc2 exc2 False m1 = (Returns info, m1)"
  proof (cases "status_of m mid = Some READY")
    case True
    with first show ?thesis
      by (auto simp: download_model_def status_of_def split: option.splits)
  next
    case False
    with first have "fetch_model e mid rv q inc exc False m = (Returns info, m1)"
      by (auto simp: download_model_def status_of_def split: option.splits if_splits)
    from fetch_model_returns[OF this] show ?thesis
      by (simp add: download_model_def)
  qed
  show "transfers (downloader m1) =
            (if status_of m mid = Some READY then transfers (downloader m)
             else transfers (downloader m) @ [mid])"
  proof (cases "status_of m mid = Some READY")
    case True
    with first show ?thesis
      by (auto simp: download_model_def status_of_def split: option.splits)
  next
    case False
    with first have "fetch_model e mid rv q inc exc False m = (Returns info, m1)"
      by (auto simp: download_model_def status_of_def split: option.splits if_splits)
    from fetch_model_returns[OF this] False show ?thesis by simp
  qed
qed

theorem download_model_idempotent_witness:
  "registry_get (registry ready_x) ''org/x'' = Some record_x \<and> status record_x = READY
   \<and> download_model calm ''org/x'' ''main'' None [] [] False ready_x = (Returns record_x, ready_x)
   \<and> download_model calm ''org/x'' ''main'' None [] [] False fresh = (Returns record_x, ready_x)
   \<and> download_model oom ''org/x'' ''v2'' (Some ''gguf'') [] [] False ready_x
       = (Returns record_x, ready_x)
   \<and> transfers (downloader ready_x) = transfers (downloader fresh) @ [''org/x'']"
proof -
  have h1: "registry_get (registry ready_x) ''org/x'' = Some record_x \<and> status record_x = READY"
    by (simp add: ready_x_facts) (simp add: record_x_def LocalModelInfo_new_def)
  have h2: "download_model calm ''org/x'' ''main'' None [] [] False fresh = (Returns record_x, ready_x)"
    by (rule first_download)
  have nr: "status_of fresh ''org/x'' \<noteq> Some READY"
    by (simp add: status_of_def fresh_def registry_get_def ModelManager_init_def
        ModelRegistry_init_def load_registry_def)
  from download_model_idempotent[of ready_x "''org/x''" record_x calm "''main''" None "[]" "[]"] h1
  have a: "download_model calm ''org/x'' ''main'' None [] [] False ready_x = (Returns record_x, ready_x)"
    by simp
  from download_model_idempotent[of fresh "''org/x''" record_x calm "''main''" None "[]" "[]"
      record_x ready_x oom "''v2''" "Some ''gguf''" "[]" "[]"] h2 nr
  have b: "download_model oom ''org/x'' ''v2'' (Some ''gguf'') [] [] False ready_x
             = (Returns record_x, ready_x)
           \<and> transfers (downloader ready_x) = transfers (downloader fresh) @ [''org/x'']"
    by simp
  from h1 h2 a b show ?thesis by simp
qed

text \<open>
  Claim C4 (a failed load reverts to READY). For a model whose record is READY and whose
  load gets as far as the weight loading (it is not resident, the loader is below its
  capacity and its lock is free): if the weight loading raises, \<^verbatim>\<open>load_model\<close>
  raises the same error, the record is READY again with only its error message changed,
  nothing is resident and nothing was downloaded; and a second \<^verbatim>\<open>load_model\<close> whose
  weights load returns, with the record LOADED, the model resident and still no transfer.
\<close>

theorem failed_load_reverts_to_ready:
  assumes rec: "registry_get (registry m) mid = Some r" and ready: "status r = READY"
    and absent: "\<not> is_loaded (loader m) mid" and free: "\<not> lock_held (loader m)"
    and room: "int (length (loaded_models (loader m))) < max_loaded_models (loader m)"
    and fails: "weights e = Some ex" and ok: "weights e2 = None"
  shows "fst (load_model e mid device dtype m) = Raises ex
     \<and> registry_get (registry (snd (load_model e mid device dtype m))) mid
         = Some (r\<lparr>error_message := Some (str_of ex)\<rparr>)
     \<and> status_of (snd (load_model e mid device dtype m)) mid = Some READY
     \<and> loader (snd (load_model e mid device dtype m)) = loader m
     \<and> downloader (snd (load_model e mid device dtype m)) = downloader m
     \<and> (\<exists>i. fst (load_model e2 mid device dtype (snd (load_model e mid device dtype m))) = Returns i)
     \<and> status_of (snd (load_model e2 mid device dtype (snd (load_model e mid device dtype m)))) mid
         = Some LOADED
     \<and> is_loaded (loader (snd (load_model e2 mid device dtype (snd (load_model e mid device dtype m))))) mid
     \<and> downloader (snd (load_model e2 mid device dtype (snd (load_model e mid device dtype m))))
         = downloader m"
proof -
  from absent have none: "map_of (loaded_models (loader m)) mid = None"
    by (simp add: is_loaded_def)
  have first: "load_model e mid device dtype m =
      (Raises ex,
       m\<lparr>registry := snd (update_status (write_fault e) (now e) mid READY (Some (str_of ex))
            (snd (update_status (write_fault e) (now e) mid LOADING None (registry m))))\<rparr>)"
    using rec ready fails load_weights_fail[OF free none room]
    by (simp add: load_model_def and_then_def try_except_def on_registry_update_status on_loader_def)
  define m' where "m' = snd (load_model e mid device dtype m)"
  have m': "m' = m\<lparr>registry := snd (update_status (write_fault e) (now e) mid READY (Some (str_of ex))
            (snd (update_status (write_fault e) (now e) mid LOADING None (registry m))))\<rparr>"
    by (simp add: m'_def first)
  have rec': "registry_get (registry m') mid = Some (r\<lparr>error_message := Some (str_of ex)\<rparr>)"
    using rec ready by (simp add: m' update_status_get) 
  have l': "loader m' = loader m" and d': "downloader m' = downloader m"
    by (simp_all add: m')
  have second: "load_model e2 mid device dtype m' =
      (Returns \<lparr>li_model_id = mid, li_device = get_device (loader m) device,
                li_dtype = lm_dtype (new_loaded mid device dtype (now e2) (loader m)),
                li_loaded_at = now e2, li_local_path = local_path r\<rparr>,
       m'\<lparr>registry := snd (update_status (write_fault e2) (now e2) mid LOADED None
                (snd (update_status (write_fault e2) (now e2) mid LOADING None (registry m')))),
          loader := (loader m)\<lparr>loaded_models :=
              AList.update mid (new_loaded mid device dtype (now e2) (loader m))
                (loaded_models (loader m))\<rparr>\<rparr>)"
    using rec' ready ok load_weights_ok[OF free none room]
    by (simp add: load_model_def and_then_def try_except_def on_registry_update_status
        on_loader_def l' new_loaded_def Let_def)
  show ?thesis
    unfolding m'_def[symmetric]
    using first rec rec' l' d' second ready
    by (simp add: status_of_def update_status_get is_loaded_def AList.update_conv' m'_def)
qed


theorem failed_load_reverts_to_ready_witness:
  "registry_get (registry ready_x) ''org/x'' = Some record_x \<and> status record_x = READY
   \<and> \<not> is_loaded (loader ready_x) ''org/x'' \<and> \<not> lock_held (loader ready_x)
   \<and> int (length (loaded_models (loader ready_x))) < max_loaded_models (loader ready_x)
   \<and> weights oom = Some (Exn ''CUDA out of memory'') \<and> weights calm = None
   \<and> fst (load_model oom ''org/x'' ''auto'' ''auto'' ready_x) = Raises (Exn ''CUDA out of memory'')
   \<and> status_of (snd (load_model oom ''org/x'' ''auto'' ''auto'' ready_x)) ''org/x'' = Some READY
   \<and> status_of (snd (load_model calm ''org/x'' ''auto'' ''auto''
                        (snd (load_model oom ''org/x'' ''auto'' ''auto'' ready_x)))) ''org/x''
       = Some LOADED"
proof -
  have h1: "registry_get (registry ready_x) ''org/x'' = Some record_x"
    and h2: "status record_x = READY"
    and h3: "\<not> is_loaded (loader ready_x) ''org/x''"
    and h4: "\<not> lock_held (loader ready_x)"
    and h5: "int (length (loaded_models (loader ready_x))) < max_loaded_models (loader ready_x)"
    by (simp_all add: ready_x_facts record_x_def LocalModelInfo_new_def is_loaded_def
        ModelLoader_init_def)
  have h6: "weights oom = Some (Exn ''CUDA out of memory'')" and h7: "weights calm = None"
    by (simp_all add: oom_def calm_def)
  from failed_load_reverts_to_ready[OF h1 h2 h3 h4 h5 h6 h7, of "''auto''" "''auto''"]
    h1 h2 h3 h4 h5 h6 h7
  show ?thesis by simp
qed





lemma remove_tree_cache_dir: "dl_cache_dir (remove_tree p s) = dl_cache_dir s"
  by (simp add: remove_tree_def)




text \<open>
  Claim C1 (the registry shows LOADED exactly for the models resident in the loader,
  between any two operations on the manager). The code does not keep this.
  \<^verbatim>\<open>download_model\<close> returns early only for a READY record, so for a model that is
  LOADED it downloads again and registers the record as READY, while the loader still
  holds the model.
\<close>

theorem loaded_model_redownloaded:
  "status_of loaded_x ''org/x'' = Some LOADED \<and> is_model_loaded loaded_x ''org/x''
   \<and> status_of (snd (download_model calm ''org/x'' ''main'' None [] [] False loaded_x)) ''org/x''
       = Some READY
   \<and> is_model_loaded (snd (download_model calm ''org/x'' ''main'' None [] [] False loaded_x)) ''org/x''"
  by (simp add: loaded_x_def ready_x_def) (simp add: manager_eval)

text \<open>
  The load that would have to evict: with two models loaded, \<^verbatim>\<open>load_model\<close> of a
  third downloads it, marks it LOADING and then waits in the loader for ever. Nothing
  is evicted, and the record stays LOADING.
\<close>

lemma load_at_capacity:
  "fst (load_model calm ''org/c'' ''auto'' ''auto'' full) = Hangs
   \<and> status_of (snd (load_model calm ''org/c'' ''auto'' ''auto'' full)) ''org/c'' = Some LOADING
   \<and> status_of (snd (load_model calm ''org/c'' ''auto'' ''auto'' full)) ''org/a'' = Some LOADED
   \<and> is_model_loaded (snd (load_model calm ''org/c'' ''auto'' ''auto'' full)) ''org/a''
   \<and> \<not> is_model_loaded (snd (load_model calm ''org/c'' ''auto'' ''auto'' full)) ''org/c''"
  by (simp add: full_def) (simp add: manager_eval)

text \<open>
  A restart has the same effect: the snapshot keeps the status LOADED, and the new
  process starts with an empty loader.
\<close>

lemma loaded_x_registry:
  "models (registry loaded_x)
     = [(''org/x'', record_x\<lparr>status := LOADED, last_used := Some ''2024-05-01T10:00:00''\<rparr>)]
   \<and> registry_file (registry loaded_x)
     = Some (Parsed (snapshot ''2024-05-01T10:00:00'' (models (registry loaded_x))))"
  by (simp add: loaded_x_def ready_x_def) (simp add: manager_eval record_x_def)

lemma restart_keeps_loaded_status:
  "status_of restarted ''org/x'' = Some LOADED \<and> \<not> is_model_loaded restarted ''org/x''"
proof -
  have d: "distinct (map fst ([] @ models (registry loaded_x)))"
    by (simp add: loaded_x_registry)
  have "load_registry (registry_file (registry loaded_x)) = models (registry loaded_x)"
    using load_items_saved[OF d] loaded_x_registry
    by (simp add: load_registry_def snapshot_def)
  then show ?thesis
    by (simp add: restarted_def ModelManager_init_def ModelRegistry_init_def status_of_def
        registry_get_def loaded_x_registry is_model_loaded_def is_loaded_def
        ModelLoader_init_def record_x_def)
qed


end
